theory Spec2Isabelle
  imports Complex_Main
begin

section \<open>Python values\<close>

text \<open>
  \<^verbatim>\<open>Assignment1.py\<close> moves decoded JSON between an HTTP endpoint, a Redis key and a
  pandas DataFrame.  A Python \<^verbatim>\<open>str\<close> is a sequence of Unicode code points, modelled
  as a list of naturals; \<open>str\<close> turns an ASCII literal into one.  The values that
  \<^verbatim>\<open>json.loads\<close> produces are \<^verbatim>\<open>None\<close>, \<^verbatim>\<open>bool\<close>, \<^verbatim>\<open>int\<close> (unbounded),
  \<^verbatim>\<open>str\<close>, \<^verbatim>\<open>list\<close> and \<^verbatim>\<open>dict\<close> (insertion ordered, so an association list).
  Python floats are outside the embedding.
\<close>

type_synonym pystr = "nat list"

definition str :: "string \<Rightarrow> pystr" where
  "str cs = map of_char cs"

datatype json =
    JNull
  | JBool bool
  | JInt int
  | JStr pystr
  | JList "json list"
  | JDict "(pystr \<times> json) list"








datatype py_exception =
    ConnectionError
  | JSONDecodeError
  | KeyError pystr
  | TypeError

text \<open>What a call wrote with \<^verbatim>\<open>print\<close>: a message, or a message followed by the caught exception.\<close>

datatype printed = Print string | PrintExc string py_exception

section \<open>The \<^verbatim>\<open>json\<close> module\<close>

subsection \<open>\<^verbatim>\<open>json.dumps\<close> with its default arguments\<close>

text \<open>
  \<^verbatim>\<open>ensure_ascii=True\<close>: inside a string literal, the quote and the backslash get a
  backslash, the control characters with a short form get it, every other character
  outside \<^verbatim>\<open>' '..'~'\<close> becomes \<^verbatim>\<open>\uXXXX\<close> (lower-case hex), and a code point above the
  basic plane becomes a surrogate pair.  The separators are \<^verbatim>\<open>', '\<close> and \<^verbatim>\<open>': '\<close>.
\<close>

definition hexdigit :: "nat \<Rightarrow> nat" where
  "hexdigit d = (if d < 10 then 48 + d else 87 + d)"

definition hex4 :: "nat \<Rightarrow> pystr" where
  "hex4 n = [hexdigit (n div 4096 mod 16), hexdigit (n div 256 mod 16),
             hexdigit (n div 16 mod 16), hexdigit (n mod 16)]"

definition u_escape :: "nat \<Rightarrow> pystr" where
  "u_escape n = [92, 117] @ hex4 n"

definition escape_char :: "nat \<Rightarrow> pystr" where
  "escape_char c =
     (if c = 34 then [92, 34]
      else if c = 92 then [92, 92]
      else if c = 10 then [92, 110]
      else if c = 13 then [92, 114]
      else if c = 9 then [92, 116]
      else if c = 8 then [92, 98]
      else if c = 12 then [92, 102]
      else if 32 \<le> c \<and> c \<le> 126 then [c]
      else if c < 65536 then u_escape c
      else u_escape (55296 + (c - 65536) div 1024 mod 1024)
           @ u_escape (56320 + (c - 65536) mod 1024))"

definition encode_basestring_ascii :: "pystr \<Rightarrow> pystr" where
  "encode_basestring_ascii s = [34] @ concat (map escape_char s) @ [34]"

fun digits :: "nat \<Rightarrow> pystr" where
  "digits n = (if n < 10 then [48 + n] else digits (n div 10) @ [48 + n mod 10])"

declare digits.simps [simp del]

definition int_repr :: "int \<Rightarrow> pystr" where
  "int_repr i = (if i < 0 then 45 # digits (nat (- i)) else digits (nat i))"

fun join :: "pystr \<Rightarrow> pystr list \<Rightarrow> pystr" where
  "join sep [] = []"
| "join sep [x] = x"
| "join sep (x # y # ys) = x @ sep @ join sep (y # ys)"

fun dumps :: "json \<Rightarrow> pystr" where
  "dumps JNull = str ''null''"
| "dumps (JBool b) = (if b then str ''true'' else str ''false'')"
| "dumps (JInt i) = int_repr i"
| "dumps (JStr s) = encode_basestring_ascii s"
| "dumps (JList xs) = [91] @ join (str '', '') (map dumps xs) @ [93]"
| "dumps (JDict kvs) =
     [123] @ join (str '', '')
               (map (\<lambda>kv. encode_basestring_ascii (fst kv) @ str '': '' @ dumps (snd kv)) kvs)
     @ [125]"

subsection \<open>\<^verbatim>\<open>json.loads\<close>\<close>

text \<open>
  The scanner of \<^verbatim>\<open>json.decoder\<close> and \<^verbatim>\<open>json.scanner\<close>, on a text already decoded to
  code points.  Each scanner takes the text at its position.  Python floats are outside
  the embedding: where the text holds a float literal, the scanners say so and decode
  no further.  The limits of the interpreter (the recursion depth, the number of digits
  of an \<^verbatim>\<open>int\<close> literal) are not modelled.
\<close>

definition is_ws :: "nat \<Rightarrow> bool" where
  "is_ws c = (c = 32 \<or> c = 9 \<or> c = 10 \<or> c = 13)"

definition skip_ws :: "pystr \<Rightarrow> pystr" where
  "skip_ws s = dropWhile is_ws s"

definition hexval :: "nat \<Rightarrow> nat option" where
  "hexval c =
     (if 48 \<le> c \<and> c \<le> 57 then Some (c - 48)
      else if 97 \<le> c \<and> c \<le> 102 then Some (c - 87)
      else if 65 \<le> c \<and> c \<le> 70 then Some (c - 55)
      else None)"

fun decode_uXXXX :: "pystr \<Rightarrow> nat option" where
  "decode_uXXXX (a # b # c # d # r) =
     (case (hexval a, hexval b, hexval c, hexval d) of
        (Some x3, Some x2, Some x1, Some x0) \<Rightarrow> Some (x3 * 4096 + x2 * 256 + x1 * 16 + x0)
      | _ \<Rightarrow> None)"
| "decode_uXXXX _ = None"

definition backslash :: "nat \<Rightarrow> nat option" where
  "backslash e =
     (if e = 34 then Some 34
      else if e = 92 then Some 92
      else if e = 47 then Some 47
      else if e = 98 then Some 8
      else if e = 102 then Some 12
      else if e = 110 then Some 10
      else if e = 114 then Some 13
      else if e = 116 then Some 9
      else None)"

definition cons_char :: "nat \<Rightarrow> (pystr \<times> pystr) option \<Rightarrow> (pystr \<times> pystr) option" where
  "cons_char c res = map_option (\<lambda>(s, r). (c # s, r)) res"

text \<open>\<^verbatim>\<open>scanstring\<close> (strict) starts after the opening quote.\<close>

fun scanstring :: "pystr \<Rightarrow> (pystr \<times> pystr) option" where
  "scanstring [] = None"
| "scanstring (c # r) =
     (if c = 34 then Some ([], r)
      else if c = 92 then
        (case r of
           [] \<Rightarrow> None
         | e # r' \<Rightarrow>
             if e = 117 then
               (case decode_uXXXX r' of
                  None \<Rightarrow> None
                | Some uni \<Rightarrow>
                    if 55296 \<le> uni \<and> uni \<le> 56319 \<and> take 2 (drop 4 r') = [92, 117] then
                      (case decode_uXXXX (drop 6 r') of
                         None \<Rightarrow> None
                       | Some uni2 \<Rightarrow>
                           if 56320 \<le> uni2 \<and> uni2 \<le> 57343
                           then cons_char (65536 + ((uni - 55296) * 1024 + (uni2 - 56320)))
                                  (scanstring (drop 10 r'))
                           else cons_char uni (scanstring (drop 4 r')))
                    else cons_char uni (scanstring (drop 4 r')))
             else
               (case backslash e of
                  None \<Rightarrow> None
                | Some ch \<Rightarrow> cons_char ch (scanstring r')))
      else if c < 32 then None
      else cons_char c (scanstring r))"

definition is_digit :: "nat \<Rightarrow> bool" where
  "is_digit c = (48 \<le> c \<and> c \<le> 57)"

definition nat_of_digits :: "pystr \<Rightarrow> nat" where
  "nat_of_digits ds = foldl (\<lambda>a c. 10 * a + (c - 48)) 0 ds"

text \<open>The integer part of \<^verbatim>\<open>NUMBER_RE\<close>: \<^verbatim>\<open>0\<close> alone, or a non-zero digit and more digits.\<close>

definition int_part :: "pystr \<Rightarrow> pystr" where
  "int_part s =
     (case s of
        [] \<Rightarrow> []
      | d # r \<Rightarrow> if d = 48 then [48] else if is_digit d then takeWhile is_digit s else [])"

definition float_tail :: "pystr \<Rightarrow> bool" where
  "float_tail r =
     (case r of
        [] \<Rightarrow> False
      | c # r1 \<Rightarrow>
          if c = 46 then (case r1 of [] \<Rightarrow> False | d # _ \<Rightarrow> is_digit d)
          else if c = 101 \<or> c = 69 then
            (case r1 of
               [] \<Rightarrow> False
             | d # r2 \<Rightarrow>
                 if d = 43 \<or> d = 45 then (case r2 of [] \<Rightarrow> False | d2 # _ \<Rightarrow> is_digit d2)
                 else is_digit d)
          else False)"

text \<open>
  What a scanner returns: the value with the text that follows it; \<open>Malformed\<close> where
  the module raises \<^verbatim>\<open>JSONDecodeError\<close>; \<open>FloatLiteral\<close> where the text holds a number
  with a fraction or an exponent, or one of \<^verbatim>\<open>NaN\<close>, \<^verbatim>\<open>Infinity\<close>, \<^verbatim>\<open>-Infinity\<close>.  The
  module goes on with a float there; what it returns in the end is not modelled.
\<close>

datatype 'a scanned = Scanned 'a pystr | Malformed | FloatLiteral

definition then_scan :: "'a scanned \<Rightarrow> ('a \<Rightarrow> pystr \<Rightarrow> 'b scanned) \<Rightarrow> 'b scanned" where
  "then_scan x f =
     (case x of Scanned v r \<Rightarrow> f v r | Malformed \<Rightarrow> Malformed | FloatLiteral \<Rightarrow> FloatLiteral)"

definition scan_string :: "pystr \<Rightarrow> pystr scanned" where
  "scan_string r = (case scanstring r of None \<Rightarrow> Malformed | Some (x, r') \<Rightarrow> Scanned x r')"

text \<open>\<open>match_number\<close> is \<open>None\<close> where \<^verbatim>\<open>NUMBER_RE\<close> does not match.\<close>

definition match_number :: "pystr \<Rightarrow> json scanned option" where
  "match_number s =
     (let neg = (case s of [] \<Rightarrow> False | c # _ \<Rightarrow> c = 45);
          s1 = (if neg then tl s else s);
          ds = int_part s1;
          r = drop (length ds) s1
      in if ds = [] then None
         else if float_tail r then Some FloatLiteral
         else Some (Scanned (JInt (if neg then - int (nat_of_digits ds) else int (nat_of_digits ds))) r))"

definition parse_constant :: "pystr \<Rightarrow> json scanned" where
  "parse_constant s =
     (if take 3 s = str ''NaN'' \<or> take 8 s = str ''Infinity'' \<or> take 9 s = str ''-Infinity''
      then FloatLiteral else Malformed)"

text \<open>
  \<^verbatim>\<open>dict(pairs)\<close>: a key met again keeps its place and takes the new value.
\<close>

fun dict_set :: "pystr \<Rightarrow> json \<Rightarrow> (pystr \<times> json) list \<Rightarrow> (pystr \<times> json) list" where
  "dict_set k v [] = [(k, v)]"
| "dict_set k v (p # ps) = (if fst p = k then (k, v) # ps else p # dict_set k v ps)"

definition dict_of :: "(pystr \<times> json) list \<Rightarrow> (pystr \<times> json) list" where
  "dict_of pairs = foldl (\<lambda>d kv. dict_set (fst kv) (snd kv) d) [] pairs"

text \<open>
  \<^verbatim>\<open>scan_once\<close>, \<^verbatim>\<open>JSONArray\<close> and \<^verbatim>\<open>JSONObject\<close> call each other; the first argument
  bounds the calls still allowed, and \<open>loads\<close> starts with more than the text is long.
\<close>

fun scan_once :: "nat \<Rightarrow> pystr \<Rightarrow> json scanned"
  and JSONArray :: "nat \<Rightarrow> pystr \<Rightarrow> json list scanned"
  and JSONObject :: "nat \<Rightarrow> pystr \<Rightarrow> (pystr \<times> json) list scanned"
where
  "scan_once 0 s = Malformed"
| "scan_once (Suc n) s =
     (case s of
        [] \<Rightarrow> Malformed
      | c # r \<Rightarrow>
          if c = 34 then then_scan (scan_string r) (\<lambda>x r'. Scanned (JStr x) r')
          else if c = 123 then
            (case skip_ws r of
               [] \<Rightarrow> Malformed
             | d # r' \<Rightarrow>
                 if d = 125 then Scanned (JDict []) r'
                 else then_scan (JSONObject n (d # r')) (\<lambda>kvs r''. Scanned (JDict (dict_of kvs)) r''))
          else if c = 91 then
            (case skip_ws r of
               [] \<Rightarrow> Malformed
             | d # r' \<Rightarrow>
                 if d = 93 then Scanned (JList []) r'
                 else then_scan (JSONArray n (d # r')) (\<lambda>vs r''. Scanned (JList vs) r''))
          else if take 4 s = str ''null'' then Scanned JNull (drop 4 s)
          else if take 4 s = str ''true'' then Scanned (JBool True) (drop 4 s)
          else if take 5 s = str ''false'' then Scanned (JBool False) (drop 5 s)
          else (case match_number s of Some res \<Rightarrow> res | None \<Rightarrow> parse_constant s))"
| "JSONArray 0 s = Malformed"
| "JSONArray (Suc n) s =
     then_scan (scan_once n s) (\<lambda>v r.
       case skip_ws r of
         [] \<Rightarrow> Malformed
       | d # r' \<Rightarrow>
           if d = 93 then Scanned [v] r'
           else if d = 44 then
             then_scan (JSONArray n (skip_ws r')) (\<lambda>vs r''. Scanned (v # vs) r'')
           else Malformed)"
| "JSONObject 0 s = Malformed"
| "JSONObject (Suc n) s =
     (case s of
        [] \<Rightarrow> Malformed
      | q # r \<Rightarrow>
          if q \<noteq> 34 then Malformed
          else
            then_scan (scan_string r) (\<lambda>k r1.
              case skip_ws r1 of
                [] \<Rightarrow> Malformed
              | c # r2 \<Rightarrow>
                  if c \<noteq> 58 then Malformed
                  else
                    then_scan (scan_once n (skip_ws r2)) (\<lambda>v r3.
                      case skip_ws r3 of
                        [] \<Rightarrow> Malformed
                      | d # r4 \<Rightarrow>
                          if d = 125 then Scanned [(k, v)] r4
                          else if d = 44 then
                            then_scan (JSONObject n (skip_ws r4))
                              (\<lambda>kvs r5. Scanned ((k, v) # kvs) r5)
                          else Malformed)))"

text \<open>
  \<open>loads\<close> returns the decoded value or the exception, and \<open>None\<close> where the text holds a
  float literal (where a value may stand), which this embedding does not decode.
\<close>

definition loads :: "pystr \<Rightarrow> (py_exception + json) option" where
  "loads s =
     (case scan_once (Suc (length s)) (skip_ws s) of
        Malformed \<Rightarrow> Some (Inl JSONDecodeError)
      | FloatLiteral \<Rightarrow> None
      | Scanned v r \<Rightarrow> if skip_ws r = [] then Some (Inr v) else Some (Inl JSONDecodeError))"


section \<open>The Redis server\<close>

text \<open>
  The server that the connection parameters of a call lead to: whether a command
  reaches it (address, port and credentials accepted), and the value held under each
  key.  \<^verbatim>\<open>redis.Redis(...)\<close> itself opens no connection; \<^verbatim>\<open>set\<close> and \<^verbatim>\<open>get\<close> raise
  when the server cannot be reached.  A stored value is modelled by the text it decodes
  to.
\<close>

record redis =
  reachable :: bool
  entries :: "pystr \<rightharpoonup> pystr"

definition redis_set :: "pystr \<Rightarrow> pystr \<Rightarrow> redis \<Rightarrow> py_exception + redis" where
  "redis_set k v srv =
     (if reachable srv then Inr (srv\<lparr>entries := (entries srv)(k \<mapsto> v)\<rparr>)
      else Inl ConnectionError)"

definition redis_get :: "pystr \<Rightarrow> redis \<Rightarrow> py_exception + pystr option" where
  "redis_get k srv = (if reachable srv then Inr (entries srv k) else Inl ConnectionError)"

section \<open>The HTTP endpoint\<close>




section \<open>\<^verbatim>\<open>class DataConnector\<close>\<close>


definition load_data_to_redis :: "json \<Rightarrow> redis \<Rightarrow> redis \<times> printed list" where
  "load_data_to_redis data r =
     (let json_data = dumps data in
      case redis_set (str ''data_key'') json_data r of
        Inl e \<Rightarrow> (r, [PrintExc ''Error loading data into Redis:'' e])
      | Inr r' \<Rightarrow> (r', [Print ''Data loaded into Redis successfully.'']))"

definition read_data_from_redis :: "redis \<Rightarrow> (json \<times> printed list) option" where
  "read_data_from_redis r =
     (case redis_get (str ''data_key'') r of
        Inl e \<Rightarrow> Some (JNull, [PrintExc ''Error reading data from Redis:'' e])
      | Inr json_data \<Rightarrow>
          if json_data \<noteq> None \<and> json_data \<noteq> Some [] then
            (case loads (the json_data) of
               None \<Rightarrow> None
             | Some (Inl e) \<Rightarrow> Some (JNull, [PrintExc ''Error reading data from Redis:'' e])
             | Some (Inr data) \<Rightarrow> Some (data, []))
          else Some (JNull, [Print ''No data found in Redis.'']))"

section \<open>pandas\<close>

text \<open>
  A DataFrame has its column labels in order and its rows, each with its index label
  and one cell per column.  The missing marker of pandas (\<^verbatim>\<open>NaN\<close>, or \<^verbatim>\<open>None\<close> in an
  object column; \<^verbatim>\<open>isna\<close> is true of both) is the cell \<open>JNull\<close>.
\<close>

record dataframe =
  columns :: "pystr list"
  rows :: "(nat \<times> json list) list"

type_synonym 'a series = "(nat \<times> 'a) list"

text \<open>
  \<^verbatim>\<open>DataFrame(data)\<close> for a list of dicts: the columns are the keys of all records in the
  order in which they are first met (\<^verbatim>\<open>lib.fast_unique_multiple_list_gen\<close> without
  sorting), the index is \<^verbatim>\<open>0..n-1\<close>, and a record without a key has the missing marker
  there.
\<close>

definition fast_unique_multiple_list_gen :: "pystr list list \<Rightarrow> pystr list" where
  "fast_unique_multiple_list_gen gen =
     foldl (\<lambda>uniques buf. foldl (\<lambda>u val. if val \<in> set u then u else u @ [val]) uniques buf) [] gen"

text \<open>
  The order of first appearance, in the words of the specification: each element once,
  at the place where it is first met.
\<close>

fun first_appearance :: "'a list \<Rightarrow> 'a list" where
  "first_appearance [] = []"
| "first_appearance (x # xs) = x # first_appearance (filter (\<lambda>y. y \<noteq> x) xs)"

definition record_cell :: "(pystr \<times> json) list \<Rightarrow> pystr \<Rightarrow> json" where
  "record_cell rec c = (case map_of rec c of None \<Rightarrow> JNull | Some v \<Rightarrow> v)"

definition DataFrame :: "(pystr \<times> json) list list \<Rightarrow> dataframe" where
  "DataFrame data =
     (let cols = fast_unique_multiple_list_gen (map (map fst) data)
      in \<lparr>columns = cols,
          rows = zip [0 ..< length data] (map (\<lambda>rec. map (record_cell rec) cols) data)\<rparr>)"

text \<open>\<^verbatim>\<open>dataframe[column]\<close> with a label: the column as a Series, or \<^verbatim>\<open>KeyError\<close>.\<close>

definition cell_at :: "pystr list \<Rightarrow> json list \<Rightarrow> pystr \<Rightarrow> json" where
  "cell_at cols cells c = (case map_of (zip cols cells) c of None \<Rightarrow> JNull | Some v \<Rightarrow> v)"

definition getitem_column :: "dataframe \<Rightarrow> pystr \<Rightarrow> py_exception + json series" where
  "getitem_column df c =
     (if c \<in> set (columns df)
      then Inr (map (\<lambda>row. (fst row, cell_at (columns df) (snd row) c)) (rows df))
      else Inl (KeyError c))"

text \<open>The entries of a column from the first row to the last.\<close>

definition column_cells :: "dataframe \<Rightarrow> pystr \<Rightarrow> json list" where
  "column_cells df c = map (\<lambda>row. cell_at (columns df) (snd row) c) (rows df)"

text \<open>
  The value searched for is a scalar: \<^verbatim>\<open>None\<close>, a \<^verbatim>\<open>bool\<close>, an \<^verbatim>\<open>int\<close> or a \<^verbatim>\<open>str\<close>.
  \<open>py_eq\<close> is Python's \<^verbatim>\<open>==\<close> between a cell and a scalar (\<^verbatim>\<open>True == 1\<close>).
  \<^verbatim>\<open>series == value\<close> compares cell by cell, except that a missing cell gives \<^verbatim>\<open>False\<close>
  and a null \<^verbatim>\<open>value\<close> gives \<^verbatim>\<open>False\<close> everywhere.
\<close>

datatype scalar = SNone | SBool bool | SInt int | SStr pystr

fun py_eq :: "json \<Rightarrow> scalar \<Rightarrow> bool" where
  "py_eq JNull SNone = True"
| "py_eq (JBool b) (SBool c) = (b = c)"
| "py_eq (JBool b) (SInt i) = ((if b then 1 else 0) = i)"
| "py_eq (JInt i) (SBool c) = (i = (if c then 1 else 0))"
| "py_eq (JInt i) (SInt j) = (i = j)"
| "py_eq (JStr s) (SStr t) = (s = t)"
| "py_eq _ _ = False"

definition cell_eq :: "json \<Rightarrow> scalar \<Rightarrow> bool" where
  "cell_eq x val = (if val = SNone \<or> x = JNull then False else py_eq x val)"

definition series_eq :: "json series \<Rightarrow> scalar \<Rightarrow> bool series" where
  "series_eq sr val = map (\<lambda>e. (fst e, cell_eq (snd e) val)) sr"

text \<open>
  \<^verbatim>\<open>dataframe[mask]\<close> with a boolean Series on the frame's own index: the rows at the
  positions where the mask is true.
\<close>

definition getitem_mask :: "dataframe \<Rightarrow> bool series \<Rightarrow> dataframe" where
  "getitem_mask df key = df\<lparr>rows := map fst (filter (\<lambda>p. snd (snd p)) (zip (rows df) key))\<rparr>"

text \<open>
  \<^verbatim>\<open>min\<close>, \<^verbatim>\<open>max\<close> and \<^verbatim>\<open>mean\<close> of a Series skip the missing cells and give \<^verbatim>\<open>NaN\<close> when
  nothing is left.  A number is modelled by the rational it denotes (\<^verbatim>\<open>bool\<close> counts as
  0 or 1); the rounding of \<^verbatim>\<open>float64\<close> is not modelled.  A cell that is present and is
  not a number (a \<^verbatim>\<open>str\<close>, a \<^verbatim>\<open>list\<close>, a \<^verbatim>\<open>dict\<close>) makes the reductions of pandas 2
  raise \<^verbatim>\<open>TypeError\<close>, in \<^verbatim>\<open>mean\<close> at the latest; the model raises it in each of them.
\<close>

datatype stat = NaN | Num rat

fun num_of :: "json \<Rightarrow> rat option" where
  "num_of (JInt i) = Some (of_int i)"
| "num_of (JBool b) = Some (if b then 1 else 0)"
| "num_of _ = None"

fun numeric_values :: "json series \<Rightarrow> py_exception + rat list" where
  "numeric_values [] = Inr []"
| "numeric_values (e # sr) =
     (if snd e = JNull then numeric_values sr
      else
        (case num_of (snd e) of
           None \<Rightarrow> Inl TypeError
         | Some n \<Rightarrow> (case numeric_values sr of Inl x \<Rightarrow> Inl x | Inr ns \<Rightarrow> Inr (n # ns))))"

definition series_min :: "json series \<Rightarrow> py_exception + stat" where
  "series_min sr =
     (case numeric_values sr of
        Inl e \<Rightarrow> Inl e
      | Inr ns \<Rightarrow> Inr (case ns of [] \<Rightarrow> NaN | n # ns' \<Rightarrow> Num (fold min ns' n)))"

definition series_max :: "json series \<Rightarrow> py_exception + stat" where
  "series_max sr =
     (case numeric_values sr of
        Inl e \<Rightarrow> Inl e
      | Inr ns \<Rightarrow> Inr (case ns of [] \<Rightarrow> NaN | n # ns' \<Rightarrow> Num (fold max ns' n)))"

definition series_mean :: "json series \<Rightarrow> py_exception + stat" where
  "series_mean sr =
     (case numeric_values sr of
        Inl e \<Rightarrow> Inl e
      | Inr ns \<Rightarrow> Inr (if ns = [] then NaN else Num (sum_list ns / of_nat (length ns))))"

section \<open>\<^verbatim>\<open>class Analytics\<close>\<close>

record analytics =
  data :: "(pystr \<times> json) list list"
  dataframe :: dataframe

definition Analytics_init :: "(pystr \<times> json) list list \<Rightarrow> analytics" where
  "Analytics_init d = \<lparr>data = d, dataframe = DataFrame d\<rparr>"

definition search_data :: "dataframe \<Rightarrow> pystr \<Rightarrow> scalar \<Rightarrow> py_exception + dataframe" where
  "search_data df column val =
     (case getitem_column df column of
        Inl e \<Rightarrow> Inl e
      | Inr sr \<Rightarrow> Inr (getitem_mask df (series_eq sr val)))"

text \<open>The dict literal evaluates its three values in order; the first exception leaves the call.\<close>

definition and_then :: "py_exception + 'a \<Rightarrow> ('a \<Rightarrow> py_exception + 'b) \<Rightarrow> py_exception + 'b" where
  "and_then r f = (case r of Inl e \<Rightarrow> Inl e | Inr x \<Rightarrow> f x)"

definition aggregate_data :: "dataframe \<Rightarrow> pystr \<Rightarrow> py_exception + (pystr \<times> stat) list" where
  "aggregate_data df column =
     and_then (and_then (getitem_column df column) series_min) (\<lambda>mn.
     and_then (and_then (getitem_column df column) series_max) (\<lambda>mx.
     and_then (and_then (getitem_column df column) series_mean) (\<lambda>av.
       Inr [(str ''min'', mn), (str ''max'', mx), (str ''average'', av)])))"

section \<open>Properties of the table operations\<close>

lemma str_simps: "str [] = []" "str (c # cs) = of_char c # str cs"
  by (simp_all add: str_def)

lemma zip_map_fst_fun: "zip (map fst rs) (map g rs) = map (\<lambda>row. (fst row, g row)) rs"
  by (induction rs) simp_all

lemma getitem_column_cells:
  "c \<in> set (columns df) \<Longrightarrow>
   getitem_column df c = Inr (zip (map fst (rows df)) (column_cells df c))"
  by (simp add: getitem_column_def column_cells_def zip_map_fst_fun)

lemma getitem_mask_series_eq:
  "map fst (filter (\<lambda>p. snd (snd p)) (zip rs (map (\<lambda>row. (fst row, f row)) rs))) = filter f rs"
  by (induction rs) auto

lemma search_data_rows:
  "c \<in> set (columns df) \<Longrightarrow>
   search_data df c v =
     Inr (df\<lparr>rows := filter (\<lambda>row. cell_eq (cell_at (columns df) (snd row) c) v) (rows df)\<rparr>)"
  using getitem_mask_series_eq
    [where f = "\<lambda>row. cell_eq (cell_at (columns df) (snd row) c) v" and rs = "rows df"]
  by (simp add: search_data_def getitem_column_def getitem_mask_def series_eq_def o_def)

lemma search_data_KeyError:
  "c \<notin> set (columns df) \<Longrightarrow> search_data df c v = Inl (KeyError c)"
  by (simp add: search_data_def getitem_column_def)





lemma uniq_step_set:
  "set (foldl (\<lambda>u val. if val \<in> set u then u else u @ [val]) u buf) = set u \<union> set buf"
  by (induction buf arbitrary: u) auto

lemma uniq_gen_set:
  "set (foldl (\<lambda>uniques buf. foldl (\<lambda>u val. if val \<in> set u then u else u @ [val]) uniques buf) u gen)
     = set u \<union> \<Union> (set ` set gen)"
  by (induction gen arbitrary: u) (auto simp: uniq_step_set)

lemma columns_DataFrame_set:
  "set (columns (DataFrame recs)) = (\<Union>r \<in> set recs. fst ` set r)"
  by (simp add: DataFrame_def Let_def fast_unique_multiple_list_gen_def uniq_gen_set)

text \<open>
  C6.  When the column is not among the frame's columns, in particular when no record
  of the data has the field, \<open>search_data\<close> raises \<^verbatim>\<open>KeyError\<close> for every value
  searched for; nothing in the method catches it.
\<close>

theorem search_data_missing_column:
  "(column \<notin> set (columns df) \<longrightarrow> search_data df column val = Inl (KeyError column))
   \<and> ((\<forall>r \<in> set recs. column \<notin> fst ` set r) \<longrightarrow>
        search_data (DataFrame recs) column val = Inl (KeyError column))"
  by (simp add: search_data_KeyError columns_DataFrame_set)

theorem search_data_missing_column_witness:
  "search_data \<lparr>columns = [str ''brand''], rows = [(0, [JStr (str ''Dell'')])]\<rparr>
       (str ''nonexistent_column'') (SStr (str ''x''))
     = Inl (KeyError (str ''nonexistent_column''))
   \<and> search_data (DataFrame [[(str ''brand'', JStr (str ''Dell''))]])
       (str ''nonexistent_column'') (SStr (str ''x''))
     = Inl (KeyError (str ''nonexistent_column''))"
  using search_data_missing_column [of "str ''nonexistent_column''"
      "\<lparr>columns = [str ''brand''], rows = [(0, [JStr (str ''Dell'')])]\<rparr>" "SStr (str ''x'')"
      "[[(str ''brand'', JStr (str ''Dell''))]]"]
  by (simp add: str_simps)

section \<open>Properties of the table construction\<close>

lemma uniq_step_first_appearance:
  "foldl (\<lambda>u val. if val \<in> set u then u else u @ [val]) u buf
     = u @ first_appearance (filter (\<lambda>x. x \<notin> set u) buf)"
proof (induction buf arbitrary: u)
  case Nil
  then show ?case by simp
next
  case (Cons x buf)
  show ?case
  proof (cases "x \<in> set u")
    case True
    then show ?thesis using Cons [of u] by simp
  next
    case False
    have "filter (\<lambda>y. y \<notin> set (u @ [x])) buf = filter (\<lambda>y. y \<noteq> x) (filter (\<lambda>y. y \<notin> set u) buf)"
      by (induction buf) auto
    then show ?thesis using False Cons [of "u @ [x]"] by simp
  qed
qed

lemma uniq_gen_concat:
  "foldl (\<lambda>uniques buf. foldl (\<lambda>u val. if val \<in> set u then u else u @ [val]) uniques buf) u gen
     = foldl (\<lambda>u val. if val \<in> set u then u else u @ [val]) u (concat gen)"
  by (induction gen arbitrary: u) simp_all

lemma columns_DataFrame_first_appearance:
  "columns (DataFrame recs) = first_appearance (concat (map (map fst) recs))"
  using uniq_step_first_appearance [of "[]" "concat (map (map fst) recs)"]
  by (simp add: DataFrame_def Let_def fast_unique_multiple_list_gen_def uniq_gen_concat)

lemma first_appearance_distinct_append:
  "distinct ks \<Longrightarrow>
   first_appearance (ks @ rest) = ks @ first_appearance (filter (\<lambda>x. x \<notin> set ks) rest)"
proof (induction ks arbitrary: rest)
  case Nil
  then show ?case by simp
next
  case (Cons k ks)
  have a: "filter (\<lambda>y. y \<noteq> k) (ks @ rest) = ks @ filter (\<lambda>y. y \<noteq> k) rest"
    using Cons.prems by (simp add: filter_id_conv) auto
  have b: "filter (\<lambda>x. x \<notin> set ks) (filter (\<lambda>y. y \<noteq> k) rest)
             = filter (\<lambda>x. x \<notin> set (k # ks)) rest"
    by (induction rest) auto
  show ?case
    using Cons.IH [of "filter (\<lambda>y. y \<noteq> k) rest"] Cons.prems a b by simp
qed

text \<open>
  C9, as the code has it.  The columns of the frame are the field names of all records
  in the order of their first appearance across the records.  So they are the fields
  of the first record in their order, followed by the fields that only later records
  have, in the order of their first appearance there; and when no later record brings
  a new field, the column order is the first record's field order.
\<close>

theorem Analytics_columns_first_appearance:
  "distinct (map fst r) \<Longrightarrow>
     columns (dataframe (Analytics_init (r # recs)))
       = first_appearance (concat (map (map fst) (r # recs)))
     \<and> columns (dataframe (Analytics_init (r # recs)))
       = map fst r
         @ first_appearance (filter (\<lambda>x. x \<notin> fst ` set r) (concat (map (map fst) recs)))
     \<and> ((\<forall>r' \<in> set recs. fst ` set r' \<subseteq> fst ` set r) \<longrightarrow>
          columns (dataframe (Analytics_init (r # recs))) = map fst r)"
proof -
  assume d: "distinct (map fst r)"
  have c1: "columns (dataframe (Analytics_init (r # recs)))
              = first_appearance (concat (map (map fst) (r # recs)))"
    by (simp add: Analytics_init_def columns_DataFrame_first_appearance)
  have c2: "columns (dataframe (Analytics_init (r # recs)))
       = map fst r
         @ first_appearance (filter (\<lambda>x. x \<notin> fst ` set r) (concat (map (map fst) recs)))"
    using first_appearance_distinct_append [OF d, of "concat (map (map fst) recs)"] c1 by simp
  have c3: "(\<forall>r' \<in> set recs. fst ` set r' \<subseteq> fst ` set r) \<longrightarrow>
          columns (dataframe (Analytics_init (r # recs))) = map fst r"
  proof
    assume h: "\<forall>r' \<in> set recs. fst ` set r' \<subseteq> fst ` set r"
    have "filter (\<lambda>x. x \<notin> fst ` set r) (concat (map (map fst) recs)) = []"
      using h by (auto simp: filter_empty_conv)
    then show "columns (dataframe (Analytics_init (r # recs))) = map fst r"
      using c2 by simp
  qed
  show ?thesis using c1 c2 c3 by blast
qed

theorem Analytics_columns_first_appearance_witness:
  "distinct (map fst [(str ''a'', JInt 1)])
   \<and> columns (dataframe (Analytics_init
        [[(str ''a'', JInt 1)],
         [(str ''c'', JInt 2), (str ''a'', JInt 3)],
         [(str ''b'', JInt 4), (str ''c'', JInt 5)]]))
     = [str ''a'', str ''c'', str ''b'']
   \<and> columns (dataframe (Analytics_init
        [[(str ''brand'', JStr (str ''Dell'')), (str ''rate'', JInt 5)],
         [(str ''rate'', JInt 3), (str ''brand'', JStr (str ''Apple''))]]))
     = [str ''brand'', str ''rate'']"
  using Analytics_columns_first_appearance
    [of "[(str ''a'', JInt 1)]"
        "[[(str ''c'', JInt 2), (str ''a'', JInt 3)], [(str ''b'', JInt 4), (str ''c'', JInt 5)]]"]
    Analytics_columns_first_appearance
    [of "[(str ''brand'', JStr (str ''Dell'')), (str ''rate'', JInt 5)]"
        "[[(str ''rate'', JInt 3), (str ''brand'', JStr (str ''Apple''))]]"]
  by (simp add: str_simps)

text \<open>
  C9, as stated, fails: with the records \<^verbatim>\<open>[{a: 1}, {b: 2, a: 3}]\<close> the columns are
  \<^verbatim>\<open>a, b\<close>, which is not the field order of the first record.
\<close>

theorem Analytics_columns_not_first_record:
  "columns (dataframe (Analytics_init [[(str ''a'', JInt 1)], [(str ''b'', JInt 2), (str ''a'', JInt 3)]]))
     = [str ''a'', str ''b'']
   \<and> columns (dataframe (Analytics_init [[(str ''a'', JInt 1)], [(str ''b'', JInt 2), (str ''a'', JInt 3)]]))
     \<noteq> map fst [(str ''a'', JInt 1)]"
  by (simp add: Analytics_init_def DataFrame_def fast_unique_multiple_list_gen_def str_simps)

section \<open>Properties of the cache and of the fetch\<close>






text \<open>
  C8.  Loading the same data a second time leaves the server as the first load left it,
  and a read after two loads returns what a read after one returns.  On a reachable
  server the load puts the serialized data under \<^verbatim>\<open>data_key\<close>, in place of whatever
  was there, and touches no other key.
\<close>

theorem load_data_to_redis_idempotent:
  "fst (load_data_to_redis R (fst (load_data_to_redis R r))) = fst (load_data_to_redis R r)
   \<and> read_data_from_redis (fst (load_data_to_redis R (fst (load_data_to_redis R r))))
       = read_data_from_redis (fst (load_data_to_redis R r))
   \<and> (reachable r \<longrightarrow>
        entries (fst (load_data_to_redis R r)) = (entries r)(str ''data_key'' \<mapsto> dumps R)
        \<and> reachable (fst (load_data_to_redis R r)))"
proof -
  have "fst (load_data_to_redis R (fst (load_data_to_redis R r))) = fst (load_data_to_redis R r)"
    by (simp add: load_data_to_redis_def redis_set_def)
  then show ?thesis
    by (simp add: load_data_to_redis_def redis_set_def)
qed

theorem load_data_to_redis_idempotent_witness:
  "reachable \<lparr>reachable = True, entries = [str ''data_key'' \<mapsto> str ''old'']\<rparr>
   \<and> entries (fst (load_data_to_redis (JList [])
         \<lparr>reachable = True, entries = [str ''data_key'' \<mapsto> str ''old'']\<rparr>))
       = [str ''data_key'' \<mapsto> dumps (JList [])]
   \<and> fst (load_data_to_redis (JList [])
         (fst (load_data_to_redis (JList [])
            \<lparr>reachable = True, entries = [str ''data_key'' \<mapsto> str ''old'']\<rparr>)))
       = fst (load_data_to_redis (JList [])
            \<lparr>reachable = True, entries = [str ''data_key'' \<mapsto> str ''old'']\<rparr>)"
  using load_data_to_redis_idempotent
    [of "JList []" "\<lparr>reachable = True, entries = [str ''data_key'' \<mapsto> str ''old'']\<rparr>"]
  by simp




section \<open>Missing entries in a search\<close>

lemma cell_eq_null: "\<not> cell_eq JNull v" "\<not> cell_eq x SNone"
  by (simp_all add: cell_eq_def)

lemma cell_at_record_cell:
  "c \<in> set cols \<Longrightarrow> cell_at cols (map (record_cell r) cols) c = record_cell r c"
  by (simp add: cell_at_def map_of_zip_map)

lemma rows_DataFrame_mem:
  "(i, cells) \<in> set (rows (DataFrame recs)) \<Longrightarrow>
   i < length recs \<and> cells = map (record_cell (recs ! i)) (columns (DataFrame recs))"
  by (auto simp: DataFrame_def Let_def set_zip)

lemma record_cell_missing: "c \<notin> fst ` set r \<Longrightarrow> record_cell r c = JNull"
  using map_of_eq_None_iff [of r c] by (simp add: record_cell_def)

lemma search_data_drops_missing:
  "search_data df column val = Inr res \<Longrightarrow>
     (\<forall>row \<in> set (rows res). cell_at (columns df) (snd row) column \<noteq> JNull)
     \<and> (val = SNone \<longrightarrow> rows res = [])"
proof -
  assume a: "search_data df column val = Inr res"
  have c: "column \<in> set (columns df)"
    using a search_data_KeyError [of column df val] by (cases "column \<in> set (columns df)") auto
  have r: "rows res = filter (\<lambda>row. cell_eq (cell_at (columns df) (snd row) column) val) (rows df)"
    using a search_data_rows [OF c, of val] by auto
  show ?thesis
    unfolding r using cell_eq_null by (auto simp: filter_empty_conv)
qed

lemma search_data_DataFrame_drops:
  assumes a: "search_data (DataFrame recs) column val = Inr res"
    and i: "i < length recs" and m: "record_cell (recs ! i) column = JNull"
  shows "i \<notin> fst ` set (rows res)"
proof
  assume "i \<in> fst ` set (rows res)"
  then obtain cells where mem: "(i, cells) \<in> set (rows res)" by auto
  have c: "column \<in> set (columns (DataFrame recs))"
    using a search_data_KeyError [of column "DataFrame recs" val]
    by (cases "column \<in> set (columns (DataFrame recs))") auto
  have r: "rows res = filter (\<lambda>row. cell_eq (cell_at (columns (DataFrame recs)) (snd row) column) val)
                        (rows (DataFrame recs))"
    using a search_data_rows [OF c, of val] by auto
  have in_df: "(i, cells) \<in> set (rows (DataFrame recs))"
    and keep: "cell_eq (cell_at (columns (DataFrame recs)) cells column) val"
    using mem unfolding r by auto
  have "cells = map (record_cell (recs ! i)) (columns (DataFrame recs))"
    using rows_DataFrame_mem [OF in_df] by simp
  then have "cell_at (columns (DataFrame recs)) cells column = JNull"
    using cell_at_record_cell [OF c, of "recs ! i"] m by simp
  then show False using keep cell_eq_null by simp
qed

lemma DataFrame_partial:
  "DataFrame
     [[(str ''brand'', JStr (str ''Dell''))],
      [(str ''rate'', JInt 3)],
      [(str ''brand'', JNull), (str ''rate'', JInt 1)]]
   = \<lparr>columns = [str ''brand'', str ''rate''],
      rows = [(0, [JStr (str ''Dell''), JNull]),
              (1, [JNull, JInt 3]),
              (2, [JNull, JInt 1])]\<rparr>"
  by (simp add: DataFrame_def fast_unique_multiple_list_gen_def record_cell_def str_simps upt_rec)

lemma search_partial_Dell:
  "search_data
     \<lparr>columns = [str ''brand'', str ''rate''],
      rows = [(0, [JStr (str ''Dell''), JNull]), (1, [JNull, JInt 3]), (2, [JNull, JInt 1])]\<rparr>
     (str ''brand'') (SStr (str ''Dell''))
   = Inr \<lparr>columns = [str ''brand'', str ''rate''], rows = [(0, [JStr (str ''Dell''), JNull])]\<rparr>"
  by (simp add: search_data_rows cell_at_def cell_eq_def str_simps)

lemma search_partial_None:
  "search_data
     \<lparr>columns = [str ''brand'', str ''rate''],
      rows = [(0, [JStr (str ''Dell''), JNull]), (1, [JNull, JInt 3]), (2, [JNull, JInt 1])]\<rparr>
     (str ''brand'') SNone
   = Inr \<lparr>columns = [str ''brand'', str ''rate''], rows = []\<rparr>"
  by (simp add: search_data_rows cell_at_def cell_eq_def str_simps)

text \<open>
  C10.  No row of a search result has a missing entry in the searched column, and a
  search for \<^verbatim>\<open>None\<close> returns no row at all: a missing entry compares equal to nothing.
  For a frame built from records, the row of a record that lacks the field (or holds
  null there) is in no search result.
\<close>

theorem search_data_excludes_missing:
  "(search_data df column val = Inr res \<longrightarrow>
       (\<forall>row \<in> set (rows res). cell_at (columns df) (snd row) column \<noteq> JNull)
       \<and> (val = SNone \<longrightarrow> rows res = []))
   \<and> (search_data (DataFrame recs) column val = Inr res' \<and> i < length recs
        \<and> record_cell (recs ! i) column = JNull \<longrightarrow>
       i \<notin> fst ` set (rows res'))"
  using search_data_drops_missing [of df column val res]
    search_data_DataFrame_drops [of recs column val res' i]
  by blast

theorem search_data_excludes_missing_witness:
  "search_data (DataFrame
     [[(str ''brand'', JStr (str ''Dell''))],
      [(str ''rate'', JInt 3)],
      [(str ''brand'', JNull), (str ''rate'', JInt 1)]]) (str ''brand'') (SStr (str ''Dell''))
     = Inr \<lparr>columns = [str ''brand'', str ''rate''], rows = [(0, [JStr (str ''Dell''), JNull])]\<rparr>
   \<and> search_data (DataFrame
     [[(str ''brand'', JStr (str ''Dell''))],
      [(str ''rate'', JInt 3)],
      [(str ''brand'', JNull), (str ''rate'', JInt 1)]]) (str ''brand'') SNone
     = Inr \<lparr>columns = [str ''brand'', str ''rate''], rows = []\<rparr>
   \<and> record_cell [(str ''rate'', JInt 3)] (str ''brand'') = JNull
   \<and> 1 \<notin> fst ` set (rows \<lparr>columns = [str ''brand'', str ''rate''],
                              rows = [(0, [JStr (str ''Dell''), JNull])]\<rparr>)"
  using search_data_excludes_missing
    [of "DataFrame
     [[(str ''brand'', JStr (str ''Dell''))],
      [(str ''rate'', JInt 3)],
      [(str ''brand'', JNull), (str ''rate'', JInt 1)]]" "str ''brand''" "SStr (str ''Dell'')"
      "\<lparr>columns = [str ''brand'', str ''rate''], rows = [(0, [JStr (str ''Dell''), JNull])]\<rparr>"
      "[[(str ''brand'', JStr (str ''Dell''))],
      [(str ''rate'', JInt 3)],
      [(str ''brand'', JNull), (str ''rate'', JInt 1)]]"
      "\<lparr>columns = [str ''brand'', str ''rate''], rows = [(0, [JStr (str ''Dell''), JNull])]\<rparr>" 1]
  by (simp only: DataFrame_partial search_partial_Dell search_partial_None)
     (simp add: record_cell_def str_simps)

section \<open>Properties of the aggregation\<close>

lemma numeric_values_numeric:
  "\<forall>e \<in> set sr. snd e \<noteq> JNull \<longrightarrow> num_of (snd e) \<noteq> None \<Longrightarrow>
   numeric_values sr = Inr (List.map_filter num_of (map snd sr))"
  by (induction sr) (auto simp: List.map_filter_simps)

lemma numeric_values_Inl: "numeric_values sr = Inl x \<Longrightarrow> x = TypeError"
  by (induction sr arbitrary: x) (auto split: if_splits option.splits sum.splits)

lemma numeric_values_Inr:
  "numeric_values sr = Inr ns \<Longrightarrow> e \<in> set sr \<Longrightarrow> snd e \<noteq> JNull \<Longrightarrow> num_of (snd e) \<noteq> None"
  by (induction sr arbitrary: ns) (auto split: if_splits option.splits sum.splits)

lemma numeric_values_TypeError:
  assumes "\<exists>e \<in> set sr. snd e \<noteq> JNull \<and> num_of (snd e) = None"
  shows "numeric_values sr = Inl TypeError"
proof (cases "numeric_values sr")
  case (Inl x)
  then show ?thesis using numeric_values_Inl [OF Inl] by simp
next
  case (Inr ns)
  then show ?thesis using assms numeric_values_Inr [OF Inr] by blast
qed

lemma map_filter_num_of_all_null:
  "\<forall>x \<in> set xs. x = JNull \<Longrightarrow> List.map_filter num_of xs = []"
  by (induction xs) (auto simp: List.map_filter_simps)

lemma map_filter_num_of_empty:
  "List.map_filter num_of xs = [] \<Longrightarrow> x \<in> set xs \<Longrightarrow> num_of x = None"
  by (induction xs) (auto simp: List.map_filter_simps split: option.splits)

lemma getitem_column_snd:
  "c \<in> set (columns df) \<Longrightarrow> \<exists>sr. getitem_column df c = Inr sr \<and> map snd sr = column_cells df c"
  by (simp add: getitem_column_def column_cells_def o_def)

lemma aggregate_data_numeric_values:
  assumes "getitem_column df c = Inr sr"
  shows "aggregate_data df c =
     (case numeric_values sr of
        Inl e \<Rightarrow> Inl e
      | Inr ns \<Rightarrow>
          Inr [(str ''min'', case ns of [] \<Rightarrow> NaN | n # ns' \<Rightarrow> Num (fold min ns' n)),
               (str ''max'', case ns of [] \<Rightarrow> NaN | n # ns' \<Rightarrow> Num (fold max ns' n)),
               (str ''average'', if ns = [] then NaN else Num (sum_list ns / of_nat (length ns)))])"
  using assms
  by (simp add: aggregate_data_def and_then_def series_min_def series_max_def series_mean_def
      split: sum.splits)




text \<open>
  C5, as the code has it.  When the column is there and holds no number: if every entry
  is missing, \<open>aggregate_data\<close> returns the dict with \<^verbatim>\<open>NaN\<close> for \<^verbatim>\<open>min\<close>, \<^verbatim>\<open>max\<close> and
  \<^verbatim>\<open>average\<close> and raises nothing; if some entry is present (a \<^verbatim>\<open>str\<close>, a \<^verbatim>\<open>list\<close>, a
  \<^verbatim>\<open>dict\<close>), the call raises \<^verbatim>\<open>TypeError\<close>.
\<close>

theorem aggregate_data_no_numbers:
  assumes c: "column \<in> set (columns df)"
    and z: "List.map_filter num_of (column_cells df column) = []"
  shows "((\<forall>x \<in> set (column_cells df column). x = JNull) \<longrightarrow>
            aggregate_data df column =
              Inr [(str ''min'', NaN), (str ''max'', NaN), (str ''average'', NaN)])
         \<and> ((\<exists>x \<in> set (column_cells df column). x \<noteq> JNull) \<longrightarrow>
            aggregate_data df column = Inl TypeError)"
proof -
  obtain sr where sr: "getitem_column df column = Inr sr" "map snd sr = column_cells df column"
    using getitem_column_snd [OF c] by blast
  have p1: "(\<forall>x \<in> set (column_cells df column). x = JNull) \<longrightarrow>
            aggregate_data df column =
              Inr [(str ''min'', NaN), (str ''max'', NaN), (str ''average'', NaN)]"
  proof
    assume h: "\<forall>x \<in> set (column_cells df column). x = JNull"
    then have "\<forall>e \<in> set sr. snd e \<noteq> JNull \<longrightarrow> num_of (snd e) \<noteq> None"
      using sr(2) [symmetric] by simp
    then have "numeric_values sr = Inr []"
      using numeric_values_numeric [of sr] sr(2) z by simp
    then show "aggregate_data df column =
              Inr [(str ''min'', NaN), (str ''max'', NaN), (str ''average'', NaN)]"
      using aggregate_data_numeric_values [OF sr(1)] by simp
  qed
  have p2: "(\<exists>x \<in> set (column_cells df column). x \<noteq> JNull) \<longrightarrow>
            aggregate_data df column = Inl TypeError"
  proof
    assume "\<exists>x \<in> set (column_cells df column). x \<noteq> JNull"
    then obtain x where x: "x \<in> set (column_cells df column)" "x \<noteq> JNull" by blast
    have "num_of x = None" using map_filter_num_of_empty [OF z x(1)] .
    moreover obtain e where "e \<in> set sr" "snd e = x"
      using x(1) sr(2) [symmetric] by auto
    ultimately have "\<exists>e \<in> set sr. snd e \<noteq> JNull \<and> num_of (snd e) = None"
      using x(2) by blast
    then have "numeric_values sr = Inl TypeError" by (rule numeric_values_TypeError)
    then show "aggregate_data df column = Inl TypeError"
      using aggregate_data_numeric_values [OF sr(1)] by simp
  qed
  show ?thesis using p1 p2 by (rule conjI)
qed

theorem aggregate_data_no_numbers_witness:
  "aggregate_data \<lparr>columns = [str ''c''], rows = [(0, [JNull]), (1, [JNull])]\<rparr> (str ''c'')
     = Inr [(str ''min'', NaN), (str ''max'', NaN), (str ''average'', NaN)]
   \<and> aggregate_data \<lparr>columns = [str ''c''], rows = [(0, [JStr (str ''Dell'')]), (1, [JNull])]\<rparr> (str ''c'')
     = Inl TypeError"
  using aggregate_data_no_numbers
    [of "str ''c''" "\<lparr>columns = [str ''c''], rows = [(0, [JNull]), (1, [JNull])]\<rparr>"]
    aggregate_data_no_numbers
    [of "str ''c''" "\<lparr>columns = [str ''c''], rows = [(0, [JStr (str ''Dell'')]), (1, [JNull])]\<rparr>"]
  by (simp add: column_cells_def cell_at_def List.map_filter_simps)

text \<open>
  C5, as stated, fails: on the record \<^verbatim>\<open>{a: null, b: 1}\<close> the column \<^verbatim>\<open>a\<close> is there and
  holds no number, and the call returns a dict instead of raising.
\<close>

theorem aggregate_data_all_missing_returns:
  "aggregate_data (DataFrame [[(str ''a'', JNull), (str ''b'', JInt 1)]]) (str ''a'')
     = Inr [(str ''min'', NaN), (str ''max'', NaN), (str ''average'', NaN)]"
  by (simp add: DataFrame_def fast_unique_multiple_list_gen_def record_cell_def str_simps
      aggregate_data_def and_then_def getitem_column_def cell_at_def
      series_min_def series_max_def series_mean_def)

section \<open>The cache round trip\<close>

subsection \<open>String literals\<close>





















subsection \<open>Integers\<close>


















subsection \<open>Lists and dicts\<close>








lemma then_scan_Scanned: "then_scan (Scanned v r) f = f v r"
  by (simp add: then_scan_def)




lemma join_Cons2: "join sep (x # y # ys) = x @ sep @ join sep (y # ys)"
  by simp
























end
